theory Spec2Isabelle
  imports Complex_Main "HOL-Library.Word"
begin

section \<open>The ToDo token application (src/App.tsx)\<close>

text \<open>
  The component \<open>App\<close> keeps its state in React state variables and drives three
  asynchronous handlers: \<open>handleCreateSubmit\<close> (create a task token),
  \<open>handleCompleteSubmit\<close> (redeem the selected task's token) and the loading effect
  (rebuild the task list from the basket). Each handler is modelled as a function from
  the component state to the component state. The libraries the handlers call
  (\<open>@babbage/sdk-ts\<close> and \<open>pushdrop\<close>) are not part of the repository: they are the
  fields of an environment record, each returning either the error it throws or its
  result. Every call of a library function is appended to a call log in the state, and
  every \<open>toast\<close> to a list of notifications. Console output is not modelled.
\<close>

subsection \<open>Values\<close>

text \<open>
  A JavaScript string is a \<open>string\<close>; one \<open>char\<close> stands for one UTF-16 code unit in the
  range U+0000 to U+00FF, so that \<open>length\<close> is \<open>.length\<close> and \<open>take\<close> is \<open>substring(0, n)\<close>.
  A \<open>Uint8Array\<close> or \<open>Buffer\<close> is a list of bytes.
\<close>

type_synonym bytes = "8 word list"

text \<open>A JavaScript \<open>number\<close>: not-a-number, the two infinities, or a finite value.\<close>

datatype number = NaN | NegInfinity | PosInfinity | Num real

text \<open>\<open>isNaN(x)\<close> on a number.\<close>

fun isNaN :: "number \<Rightarrow> bool" where
  "isNaN NaN = True"
| "isNaN _ = False"

text \<open>The relational operator \<open>a < b\<close> on numbers: false as soon as one side is \<open>NaN\<close>.\<close>

fun num_less :: "number \<Rightarrow> number \<Rightarrow> bool" where
  "num_less NaN _ = False"
| "num_less _ NaN = False"
| "num_less (Num a) (Num b) = (a < b)"
| "num_less _ NegInfinity = False"
| "num_less NegInfinity _ = True"
| "num_less PosInfinity _ = False"
| "num_less (Num a) PosInfinity = True"

text \<open>An \<open>Error\<close> object: its optional \<open>code\<close> property and its \<open>message\<close>.\<close>

datatype js_error = JsError (code: "string option") (message: string)

text \<open>
  The \<open>TypeError\<close> the engine raises when a property of \<open>undefined\<close> is read or when
  \<open>Buffer.from\<close> receives \<open>undefined\<close>. The wording of its message belongs to the engine.
\<close>

definition TypeError :: js_error where
  "TypeError = JsError None ''TypeError''"

text \<open>
  Own enumerable properties of an object that the code copies with a spread and never
  reads: the property name and an opaque rendering of the value.
\<close>

type_synonym props = "(string \<times> string) list"

subsection \<open>Buffers\<close>

text \<open>
  \<open>Buffer.from(s)\<close>: the UTF-8 encoding of the string. A code unit below 0x80 is one
  byte, one from 0x80 to 0xFF is two bytes.
\<close>

definition utf8_unit :: "char \<Rightarrow> bytes" where
  "utf8_unit c =
     (let n = (of_char c :: nat)
      in if n < 128 then [of_nat n] else [of_nat (192 + n div 64), of_nat (128 + n mod 64)])"

definition Buffer_from :: "string \<Rightarrow> bytes" where
  "Buffer_from s = concat (map utf8_unit s)"


text \<open>The value of a hexadecimal digit, in either case.\<close>

definition hexVal :: "char \<Rightarrow> nat option" where
  "hexVal c =
     (let n = (of_char c :: nat)
      in if 48 \<le> n \<and> n \<le> 57 then Some (n - 48)
         else if 97 \<le> n \<and> n \<le> 102 then Some (n - 87)
         else if 65 \<le> n \<and> n \<le> 70 then Some (n - 55)
         else None)"

text \<open>
  \<open>Buffer.from(s, 'hex')\<close>: two digits make one byte; decoding stops silently at the
  first pair that is not hexadecimal, and a trailing single character is dropped.
\<close>

fun Buffer_from_hex :: "string \<Rightarrow> bytes" where
  "Buffer_from_hex (a # b # rest) =
     (case hexVal a of
        None \<Rightarrow> []
      | Some h \<Rightarrow>
          (case hexVal b of
             None \<Rightarrow> []
           | Some l \<Rightarrow> of_nat (16 * h + l) # Buffer_from_hex rest))"
| "Buffer_from_hex _ = []"

text \<open>
  \<open>buf.toString('hex')\<close>, the lower-case hexadecimal rendering of a buffer. PushDrop's
  decoder hands the fields back in this form, which is why the loading effect reads
  field 1 with \<open>Buffer.from(encryptedTask, 'hex')\<close>.
\<close>

definition hexDigit :: "nat \<Rightarrow> char" where
  "hexDigit n = (if n < 10 then char_of (48 + n) else char_of (87 + n))"

definition toHex :: "bytes \<Rightarrow> string" where
  "toHex bs = concat (map (\<lambda>b. [hexDigit (unat b div 16), hexDigit (unat b mod 16)]) bs)"

subsection \<open>Tokens, tasks and what the libraries exchange\<close>

text \<open>
  The \<open>Token\<close> of \<open>types/types.ts\<close>: the locking script, the transaction id, the output
  index (which may be \<open>undefined\<close>), and whatever else was spread into the object.
\<close>

record Token =
  lockingScript :: string
  txid :: string
  outputIndex :: "nat option"
  carried :: props

text \<open>
  One element of the result of \<open>getTransactionOutputs\<close>. The loading effect reads
  \<open>outputScript\<close>, \<open>amount\<close>, \<open>txid\<close>, \<open>vout\<close> and \<open>envelope\<close>.
\<close>

record basket_output =
  outputScript :: string
  amount :: number
  out_txid :: string
  vout :: "nat option"
  envelope :: "props option"

text \<open>
  An element of the \<open>tasks\<close> array. The objects built by the code have the properties
  \<open>task\<close>, \<open>sats\<close> and \<open>token\<close>, except the object built in the \<open>catch\<close> of the
  loading effect, \<open>{...task, task: '[error] ...'}\<close>, which has the properties of the
  basket output (field \<open>spread\<close>) and \<open>task\<close>: reading its \<open>sats\<close> or \<open>token\<close> gives
  \<open>undefined\<close>.
\<close>

record Task =
  task :: string
  sats :: "number option"
  token :: "Token option"
  spread :: "basket_output option"

text \<open>
  Objects have an identity: \<open>x === selectedTask\<close> compares references. Every object
  the code creates gets a fresh reference from a counter in the state, and an array of
  tasks is a list of references paired with the (never mutated) object contents.
\<close>

type_synonym ref = nat
type_synonym task_obj = "ref \<times> Task"

text \<open>The result of \<open>createAction\<close>: \<open>txid\<close> (possibly absent) and its other properties.\<close>

record action_result =
  res_txid :: "string option"
  res_props :: props

text \<open>One element of \<open>outputs\<close> in the argument of \<open>createAction\<close>.\<close>

record action_output =
  satoshis :: number
  script :: string
  basket :: string
  out_description :: string

text \<open>
  One entry of \<open>inputs\<close> in the argument of \<open>createAction\<close>: the spread token and the
  single element of \<open>outputsToRedeem\<close>.
\<close>

record action_input =
  in_token :: Token
  redeem_index :: nat
  unlockingScript :: string
  spendingDescription :: string

record action_args =
  act_description :: string
  act_outputs :: "action_output list"
  act_inputs :: "(string \<times> action_input) list"

text \<open>
  The argument of \<open>pushdrop.redeem\<close>. The four values come from optional chaining on
  \<open>selectedTask\<close> and may be \<open>undefined\<close>.
\<close>

record redeem_args =
  rd_protocolID :: string
  rd_keyID :: string
  prevTxId :: "string option"
  rd_outputIndex :: "nat option"
  rd_lockingScript :: "string option"
  outputAmount :: "number option"

subsection \<open>The libraries\<close>

text \<open>
  \<open>encrypt\<close> and \<open>decrypt\<close> take the data, the protocol id and the key id;
  \<open>pushdrop_create\<close> the fields, the protocol id and the key id; \<open>pushdrop_decode\<close> the
  script, returning the fields as strings; \<open>getTransactionOutputs\<close> the basket and the
  flags \<open>spendable\<close> and \<open>includeEnvelope\<close>. \<open>Inl\<close> is the error thrown.
\<close>

record env =
  encrypt :: "bytes \<Rightarrow> string \<Rightarrow> string \<Rightarrow> js_error + bytes"
  decrypt :: "bytes \<Rightarrow> string \<Rightarrow> string \<Rightarrow> js_error + string"
  pushdrop_create :: "bytes list \<Rightarrow> string \<Rightarrow> string \<Rightarrow> js_error + string"
  pushdrop_decode :: "string \<Rightarrow> js_error + string list"
  pushdrop_redeem :: "redeem_args \<Rightarrow> js_error + string"
  createAction :: "action_args \<Rightarrow> js_error + action_result"
  getTransactionOutputs :: "string \<Rightarrow> bool \<Rightarrow> bool \<Rightarrow> js_error + basket_output list"

datatype call =
  CallEncrypt | CallDecrypt | CallPushdropCreate | CallPushdropDecode
| CallPushdropRedeem | CallCreateAction | CallGetTransactionOutputs

text \<open>
  A notification: \<open>toast.error(msg)\<close>, \<open>toast.dark('Task successfully created!')\<close>, or
  the \<open>toast.dark\<close> that congratulates on a completed task.
\<close>

datatype toast = ToastError string | ToastCreated | ToastCompleted

subsection \<open>The component state\<close>

record app_state =
  createOpen :: bool
  createTask :: string
  createAmount :: number
  createLoading :: bool
  tasksLoading :: bool
  tasks :: "task_obj list"
  completeOpen :: bool
  selectedTask :: "task_obj option"
  completeLoading :: bool
  toasts :: "toast list"
  calls :: "call list"
  nextRef :: ref

text \<open>The initial values given to \<open>useState\<close>.\<close>

definition initial_state :: app_state where
  "initial_state =
     \<lparr> createOpen = False, createTask = [], createAmount = Num 1000,
       createLoading = False, tasksLoading = True, tasks = [], completeOpen = False,
       selectedTask = None, completeLoading = False, toasts = [], calls = [],
       nextRef = 0 \<rparr>"

definition toast_error :: "string \<Rightarrow> app_state \<Rightarrow> app_state" where
  "toast_error msg st = st\<lparr>toasts := toasts st @ [ToastError msg]\<rparr>"

definition called :: "call \<Rightarrow> app_state \<Rightarrow> app_state" where
  "called c st = st\<lparr>calls := calls st @ [c]\<rparr>"

text \<open>The namespace address of the protocol.\<close>

definition TODO_PROTO_ADDR :: string where
  "TODO_PROTO_ADDR = ''1ToDoDtKreEzbHYKFjmoBuduFmSXXUGZG''"

text \<open>
  The properties of \<open>src\<close> that survive in \<open>{...src, lockingScript, txid, outputIndex}\<close>
  as they were: the three named ones are overwritten.
\<close>

definition spread_rest :: "props \<Rightarrow> props" where
  "spread_rest src =
     filter (\<lambda>kv. fst kv \<notin> {''lockingScript'', ''txid'', ''outputIndex''}) src"

subsection \<open>Creating a task: \<open>handleCreateSubmit\<close>\<close>

text \<open>The argument of \<open>createAction\<close> when a token is created: one output, no input.\<close>

definition create_action_args :: "string \<Rightarrow> number \<Rightarrow> string \<Rightarrow> action_args" where
  "create_action_args description amt bitcoinOutputScript =
     \<lparr> act_description = ''Create a TODO task: '' @ description,
       act_outputs =
         [\<lparr> satoshis = amt, script = bitcoinOutputScript, basket = ''todo tokens'',
            out_description = ''New ToDo list item'' \<rparr>],
       act_inputs = [] \<rparr>"

text \<open>
  The object put in front of the list:
  \<open>{task, sats, token: {...newToDoToken, lockingScript, txid, outputIndex: 0}}\<close> with
  \<open>txid = newToDoToken.txid ?? ''\<close>.
\<close>

definition new_task :: "string \<Rightarrow> number \<Rightarrow> string \<Rightarrow> action_result \<Rightarrow> Task" where
  "new_task description amt bitcoinOutputScript newToDoToken =
     \<lparr> task = description, sats = Some amt,
       token = Some
         \<lparr> lockingScript = bitcoinOutputScript,
           txid = (case res_txid newToDoToken of None \<Rightarrow> [] | Some t \<Rightarrow> t),
           outputIndex = Some 0,
           carried = spread_rest (res_props newToDoToken) \<rparr>,
       spread = None \<rparr>"

text \<open>The \<open>catch\<close> and \<open>finally\<close> of \<open>handleCreateSubmit\<close>.\<close>

definition create_catch :: "js_error \<Rightarrow> app_state \<Rightarrow> app_state" where
  "create_catch e st = (toast_error (message e) st)\<lparr>createLoading := False\<rparr>"

text \<open>
  The three early returns leave the \<open>try\<close> through \<open>finally\<close>. After them the handler
  encrypts the text, builds the script, submits the action and, if none of the three
  threw, puts the new task in front of the list and resets the form.
\<close>

definition handleCreateSubmit :: "env \<Rightarrow> app_state \<Rightarrow> app_state" where
  "handleCreateSubmit env st =
     (if createTask st = [] then
        (toast_error ''Enter a task to complete!'' st)\<lparr>createLoading := False\<rparr>
      else if createAmount st = Num 0 \<or> isNaN (createAmount st) then
        (toast_error ''Enter an amount for the new task!'' st)\<lparr>createLoading := False\<rparr>
      else if num_less (createAmount st) (Num 500) then
        (toast_error ''The amount must be more than 500 satoshis!'' st)
          \<lparr>createLoading := False\<rparr>
      else
        (let st1 = called CallEncrypt (st\<lparr>createLoading := True\<rparr>);
             st2 = called CallPushdropCreate st1;
             st3 = called CallCreateAction st2
         in (case encrypt env (Buffer_from (createTask st)) ''todo list'' ''1'' of
               Inl e \<Rightarrow> create_catch e st1
             | Inr encryptedTask \<Rightarrow>
                 (case pushdrop_create env [Buffer_from TODO_PROTO_ADDR, encryptedTask]
                         ''todo list'' ''1'' of
                    Inl e \<Rightarrow> create_catch e st2
                  | Inr bitcoinOutputScript \<Rightarrow>
                      (case createAction env
                              (create_action_args (createTask st) (createAmount st)
                                 bitcoinOutputScript) of
                         Inl e \<Rightarrow> create_catch e st3
                       | Inr newToDoToken \<Rightarrow>
                           st3\<lparr> toasts := toasts st3 @ [ToastCreated],
                                tasks :=
                                  (nextRef st3,
                                   new_task (createTask st) (createAmount st)
                                     bitcoinOutputScript newToDoToken) # tasks st3,
                                nextRef := Suc (nextRef st3),
                                createTask := [],
                                createAmount := Num 1000,
                                createOpen := False,
                                createLoading := False \<rparr>)))))"

subsection \<open>Completing a task: \<open>handleCompleteSubmit\<close>\<close>

text \<open>\<open>openCompleteModal(task)\<close>: the clicked element becomes the selected task.\<close>

definition openCompleteModal :: "task_obj \<Rightarrow> app_state \<Rightarrow> app_state" where
  "openCompleteModal x st = st\<lparr>selectedTask := Some x, completeOpen := True\<rparr>"

text \<open>
  The argument object of \<open>pushdrop.redeem\<close>. With no selected task the optional chains
  give \<open>undefined\<close>; with a selected task that has no \<open>token\<close>,
  \<open>selectedTask?.token.txid\<close> throws.
\<close>

definition redeem_args_of :: "task_obj option \<Rightarrow> js_error + redeem_args" where
  "redeem_args_of sel =
     (case sel of
        None \<Rightarrow>
          Inr \<lparr> rd_protocolID = ''todo list'', rd_keyID = ''1'', prevTxId = None,
                rd_outputIndex = None, rd_lockingScript = None, outputAmount = None \<rparr>
      | Some x \<Rightarrow>
          (case token (snd x) of
             None \<Rightarrow> Inl TypeError
           | Some tok \<Rightarrow>
               Inr \<lparr> rd_protocolID = ''todo list'', rd_keyID = ''1'',
                     prevTxId = Some (txid tok), rd_outputIndex = outputIndex tok,
                     rd_lockingScript = Some (lockingScript tok),
                     outputAmount = sats (snd x) \<rparr>))"

text \<open>The description of the redeeming action, cut to 128 characters.\<close>

definition completion_description :: "task_obj option \<Rightarrow> string" where
  "completion_description sel =
     (let description =
            ''Complete a TODO task: '' @ [CHR 0x22]
            @ (case sel of None \<Rightarrow> ''undefined'' | Some x \<Rightarrow> task (snd x))
            @ [CHR 0x22]
      in if length description > 128 then take 128 description else description)"

text \<open>The argument of \<open>createAction\<close> when a token is redeemed: one input, no output.\<close>

definition complete_action_args ::
  "string \<Rightarrow> Token \<Rightarrow> nat \<Rightarrow> string \<Rightarrow> action_args" where
  "complete_action_args description tok i unlocking =
     \<lparr> act_description = description,
       act_outputs = [],
       act_inputs =
         [(txid tok,
           \<lparr> in_token = tok, redeem_index = i, unlockingScript = unlocking,
             spendingDescription = ''Complete a ToDo list item'' \<rparr>)] \<rparr>"

text \<open>\<open>xs.findIndex(p)\<close>, with \<open>None\<close> for -1, and \<open>xs.splice(i, 1)\<close>.\<close>

fun findIndex :: "('a \<Rightarrow> bool) \<Rightarrow> 'a list \<Rightarrow> nat option" where
  "findIndex p [] = None"
| "findIndex p (x # xs) = (if p x then Some 0 else map_option Suc (findIndex p xs))"

definition splice1 :: "nat \<Rightarrow> 'a list \<Rightarrow> 'a list" where
  "splice1 i xs = take i xs @ drop (Suc i) xs"

text \<open>
  The updater given to \<open>setTasks\<close>: the first element that is the selected object
  itself is taken out. \<open>===\<close> on objects compares references.
\<close>

definition remove_task :: "task_obj \<Rightarrow> task_obj list \<Rightarrow> task_obj list" where
  "remove_task sel oldTasks =
     (case findIndex (\<lambda>x. fst x = fst sel) oldTasks of
        None \<Rightarrow> oldTasks
      | Some index \<Rightarrow> splice1 index oldTasks)"

text \<open>The \<open>catch\<close> and \<open>finally\<close> of \<open>handleCompleteSubmit\<close>.\<close>

definition complete_catch :: "js_error \<Rightarrow> app_state \<Rightarrow> app_state" where
  "complete_catch e st =
     (toast_error (''Error completing task: '' @ message e) st)\<lparr>completeLoading := False\<rparr>"

text \<open>
  The handler asks PushDrop for the unlocking script first, then checks the selected
  task (\<open>null\<close>, empty \<open>txid\<close>, \<open>undefined\<close> output index), then submits the action.
\<close>

definition handleCompleteSubmit :: "env \<Rightarrow> app_state \<Rightarrow> app_state" where
  "handleCompleteSubmit env st =
     (let st1 = st\<lparr>completeLoading := True\<rparr>;
          st2 = called CallPushdropRedeem st1;
          st3 = called CallCreateAction st2
      in (case redeem_args_of (selectedTask st) of
            Inl e \<Rightarrow> complete_catch e st1
          | Inr args \<Rightarrow>
              (case pushdrop_redeem env args of
                 Inl e \<Rightarrow> complete_catch e st2
               | Inr unlocking \<Rightarrow>
                   (case selectedTask st of
                      None \<Rightarrow> complete_catch (JsError None ''No task selected.'') st2
                    | Some sel \<Rightarrow>
                        (case token (snd sel) of
                           None \<Rightarrow> complete_catch TypeError st2
                         | Some tok \<Rightarrow>
                             (case outputIndex tok of
                                None \<Rightarrow>
                                  complete_catch
                                    (JsError None ''Task data is incomplete or undefined.'')
                                    st2
                              | Some i \<Rightarrow>
                                  (if txid tok = [] then
                                     complete_catch
                                       (JsError None
                                          ''Task data is incomplete or undefined.'')
                                       st2
                                   else
                                     (case createAction env
                                             (complete_action_args
                                                (completion_description (selectedTask st))
                                                tok i unlocking) of
                                        Inl e \<Rightarrow> complete_catch e st3
                                      | Inr r \<Rightarrow>
                                          st3\<lparr> toasts := toasts st3 @ [ToastCompleted],
                                               tasks := remove_task sel (tasks st3),
                                               selectedTask := None,
                                               completeOpen := False,
                                               completeLoading := False \<rparr>))))))))"

subsection \<open>Loading the tasks: the effect that runs on mount\<close>

definition UNABLE_TO_DECRYPT :: string where
  "UNABLE_TO_DECRYPT = ''[error] Unable to decrypt task!''"

text \<open>
  The \<open>try\<close> block for one basket output: decode the script, take field 1 (reading it
  from a shorter array gives \<open>undefined\<close>, on which \<open>Buffer.from\<close> throws), decrypt it,
  and build the task object.
\<close>

definition decryptTask :: "env \<Rightarrow> basket_output \<Rightarrow> js_error + Task" where
  "decryptTask env out =
     (case pushdrop_decode env (outputScript out) of
        Inl e \<Rightarrow> Inl e
      | Inr decodedFields \<Rightarrow>
          (case decodedFields of
             f0 # encryptedTask # others \<Rightarrow>
               (case decrypt env (Buffer_from_hex encryptedTask) ''todo list'' ''1'' of
                  Inl e \<Rightarrow> Inl e
                | Inr decryptedTask \<Rightarrow>
                    Inr \<lparr> task = decryptedTask, sats = Some (amount out),
                          token = Some
                            \<lparr> lockingScript = outputScript out, txid = out_txid out,
                              outputIndex = vout out,
                              carried =
                                (case envelope out of
                                   None \<Rightarrow> []
                                 | Some e \<Rightarrow> spread_rest e) \<rparr>,
                          spread = None \<rparr>)
           | _ \<Rightarrow> Inl TypeError))"

text \<open>
  The function mapped over the basket outputs: the \<open>try\<close> block, and in its \<open>catch\<close>
  the object \<open>{...task, task: '[error] Unable to decrypt task!'}\<close>, where \<open>task\<close>
  is the basket output.
\<close>

definition loadItem :: "env \<Rightarrow> basket_output \<Rightarrow> Task" where
  "loadItem env out =
     (case decryptTask env out of
        Inr t \<Rightarrow> t
      | Inl e \<Rightarrow>
          \<lparr> task = UNABLE_TO_DECRYPT, sats = None, token = None, spread = Some out \<rparr>)"

text \<open>The library calls made for one basket output.\<close>

definition item_calls :: "env \<Rightarrow> basket_output \<Rightarrow> call list" where
  "item_calls env out =
     (case pushdrop_decode env (outputScript out) of
        Inl e \<Rightarrow> [CallPushdropDecode]
      | Inr decodedFields \<Rightarrow>
          (case decodedFields of
             f0 # encryptedTask # others \<Rightarrow> [CallPushdropDecode, CallDecrypt]
           | _ \<Rightarrow> [CallPushdropDecode]))"

text \<open>
  The effect: query the basket, map every output to a task object, reverse, and
  install the result with \<open>setTasks\<close>. A failed query shows an error unless its code is
  \<open>ERR_NO_METANET_IDENTITY\<close>; \<open>finally\<close> clears \<open>tasksLoading\<close>.
\<close>

definition loadTasks :: "env \<Rightarrow> app_state \<Rightarrow> app_state" where
  "loadTasks env st =
     (let st1 = called CallGetTransactionOutputs st
      in (case getTransactionOutputs env ''todo tokens'' True True of
            Inl e \<Rightarrow>
              (if code e \<noteq> Some ''ERR_NO_METANET_IDENTITY'' then
                 toast_error (''Failed to load ToDo tasks! Error: '' @ message e) st1
               else st1)\<lparr>tasksLoading := False\<rparr>
          | Inr tasksFromBasket \<Rightarrow>
              st1\<lparr> calls := calls st1 @ concat (map (item_calls env) tasksFromBasket),
                   tasks :=
                     rev (zip [nextRef st1 ..< nextRef st1 + length tasksFromBasket]
                            (map (loadItem env) tasksFromBasket)),
                   nextRef := nextRef st1 + length tasksFromBasket,
                   tasksLoading := False \<rparr>))"

subsection \<open>An invariant of the references\<close>

text \<open>
  No object occurs twice in the \<open>tasks\<close> array, and the counter is beyond every
  reference in use.
\<close>

definition refs_fresh :: "app_state \<Rightarrow> bool" where
  "refs_fresh st \<longleftrightarrow>
     distinct (map fst (tasks st)) \<and> list_all (\<lambda>x. fst x < nextRef st) (tasks st)"

subsection \<open>A concrete environment\<close>

text \<open>
  Stand-ins for the libraries, simple enough to run the handlers on examples:
  encryption reverses the bytes, a script is the hexadecimal fields each followed by
  a dot, redeeming needs a locking script, and the ledger accepts every action.
\<close>

definition demo_encrypt :: "bytes \<Rightarrow> string \<Rightarrow> string \<Rightarrow> js_error + bytes" where
  "demo_encrypt plaintext protocolID keyID = Inr (rev plaintext)"

definition demo_decrypt :: "bytes \<Rightarrow> string \<Rightarrow> string \<Rightarrow> js_error + string" where
  "demo_decrypt ciphertext protocolID keyID =
     (if ciphertext = [] then Inl (JsError None ''Decryption failed'')
      else Inr (map (\<lambda>b. char_of (unat b)) (rev ciphertext)))"

definition demo_create :: "bytes list \<Rightarrow> string \<Rightarrow> string \<Rightarrow> js_error + string" where
  "demo_create fs protocolID keyID = Inr (concat (map (\<lambda>f. toHex f @ ''.'') fs))"

fun split_fields :: "string \<Rightarrow> string \<Rightarrow> string list" where
  "split_fields acc [] = []"
| "split_fields acc (c # cs) =
     (if c = CHR ''.'' then rev acc # split_fields [] cs else split_fields (c # acc) cs)"

definition demo_decode :: "string \<Rightarrow> js_error + string list" where
  "demo_decode s =
     (if s = [] then Inl (JsError None ''Not a PushDrop script'')
      else Inr (split_fields [] s))"

definition demo_redeem :: "redeem_args \<Rightarrow> js_error + string" where
  "demo_redeem args =
     (case rd_lockingScript args of
        None \<Rightarrow> Inl (JsError None ''Missing locking script'')
      | Some s \<Rightarrow> Inr (''unlock '' @ s))"

definition demo_createAction :: "action_args \<Rightarrow> js_error + action_result" where
  "demo_createAction args = Inr \<lparr> res_txid = Some ''tx1'', res_props = [(''log'', [])] \<rparr>"

definition demo_env :: "basket_output list \<Rightarrow> env" where
  "demo_env ledger =
     \<lparr> encrypt = demo_encrypt, decrypt = demo_decrypt, pushdrop_create = demo_create,
       pushdrop_decode = demo_decode, pushdrop_redeem = demo_redeem,
       createAction = demo_createAction,
       getTransactionOutputs = (\<lambda>b spendable includeEnvelope. Inr ledger) \<rparr>"

text \<open>A basket output holding the token of a task, in the format of \<open>demo_create\<close>.\<close>

definition demo_output :: "string \<Rightarrow> string \<Rightarrow> basket_output" where
  "demo_output description t =
     \<lparr> outputScript = ''00.'' @ toHex (rev (Buffer_from description)) @ ''.'',
       amount = Num 1000, out_txid = t, vout = Some 0, envelope = None \<rparr>"

text \<open>A task object with a complete token, given its description and its \<open>txid\<close>.\<close>

definition demo_task :: "string \<Rightarrow> string \<Rightarrow> Task" where
  "demo_task description t =
     \<lparr> task = description, sats = Some (Num 1000),
       token = Some \<lparr> lockingScript = ''00.00.'', txid = t, outputIndex = Some 0,
                      carried = [] \<rparr>,
       spread = None \<rparr>"

text \<open>A state with the form filled in and one task already in the list.\<close>

definition demo_state :: app_state where
  "demo_state =
     initial_state\<lparr> createTask := ''Buy milk'', tasks := [(0, demo_task ''Old'' ''a0'')],
                    nextRef := 1 \<rparr>"

text \<open>A basket output whose second field is empty, so that decryption fails.\<close>

definition demo_corrupt :: basket_output where
  "demo_corrupt =
     \<lparr> outputScript = ''00..'', amount = Num 700, out_txid = ''bad'', vout = Some 0,
       envelope = None \<rparr>"

text \<open>Environments whose basket query fails with a given error.\<close>

definition no_identity :: js_error where
  "no_identity = JsError (Some ''ERR_NO_METANET_IDENTITY'') ''No identity''"

definition failing_query :: "js_error \<Rightarrow> env" where
  "failing_query e =
     (demo_env [])\<lparr>getTransactionOutputs := (\<lambda>b spendable includeEnvelope. Inl e)\<rparr>"

text \<open>An environment whose \<open>pushdrop.redeem\<close> refuses a missing or empty \<open>prevTxId\<close>.\<close>

definition strict_env :: env where
  "strict_env =
     (demo_env [])\<lparr>pushdrop_redeem :=
        (\<lambda>args. if prevTxId args = Some [] \<or> prevTxId args = None
                then Inl (JsError None ''Invalid previous transaction'')
                else demo_redeem args)\<rparr>"

text \<open>An environment whose ledger answers without a \<open>txid\<close>.\<close>

definition env_no_txid :: env where
  "env_no_txid =
     (demo_env [])\<lparr>createAction := (\<lambda>args. Inr \<lparr> res_txid = None, res_props = [] \<rparr>)\<rparr>"

text \<open>
  A state whose list holds two task objects with the same contents, the second of
  which is selected.
\<close>

definition twins_state :: app_state where
  "twins_state =
     initial_state\<lparr> tasks := [(0, demo_task ''Same'' ''a0''), (1, demo_task ''Same'' ''a0''),
                              (2, demo_task ''Other'' ''a2'')],
                    selectedTask := Some (1, demo_task ''Same'' ''a0''),
                    completeOpen := True, nextRef := 3 \<rparr>"

text \<open>A state in which a task with an empty \<open>txid\<close> is selected.\<close>

definition empty_txid_state :: app_state where
  "empty_txid_state =
     initial_state\<lparr> tasks := [(0, demo_task ''Buy milk'' [])],
                    selectedTask := Some (0, demo_task ''Buy milk'' []),
                    completeOpen := True, nextRef := 1 \<rparr>"




section \<open>Properties\<close>

lemmas handler_defs = toast_error_def called_def create_catch_def complete_catch_def

subsection \<open>Hexadecimal buffers\<close>









subsection \<open>The cipher and the codec of \<open>lawful_env\<close>\<close>







subsection \<open>Creating a task\<close>

text \<open>The state after a creation in which nothing failed.\<close>

lemma create_success:
  assumes "createTask st \<noteq> []" and "createAmount st \<noteq> Num 0"
    and "\<not> isNaN (createAmount st)" and "\<not> num_less (createAmount st) (Num 500)"
    and "encrypt env (Buffer_from (createTask st)) ''todo list'' ''1'' = Inr c"
    and "pushdrop_create env [Buffer_from TODO_PROTO_ADDR, c] ''todo list'' ''1'' = Inr s"
    and "createAction env (create_action_args (createTask st) (createAmount st) s) = Inr r"
  shows "handleCreateSubmit env st =
           st\<lparr> calls := calls st @ [CallEncrypt, CallPushdropCreate, CallCreateAction],
                toasts := toasts st @ [ToastCreated],
                tasks := (nextRef st, new_task (createTask st) (createAmount st) s r) # tasks st,
                nextRef := Suc (nextRef st),
                createTask := [], createAmount := Num 1000, createOpen := False,
                createLoading := False \<rparr>"
  using assms by (simp add: handleCreateSubmit_def handler_defs Let_def)


text \<open>
  C2. When the description is empty, or the amount is zero, not a number or below 500,
  \<open>handleCreateSubmit\<close> shows one validation error, calls no library function, and
  leaves the task list and the form's contents as they were. The message is the one
  of the first check that fails: description, then zero or not a number, then below 500.
\<close>

theorem createTask_rejects_invalid_input:
  assumes "createTask st = [] \<or> createAmount st = Num 0 \<or> isNaN (createAmount st)
           \<or> num_less (createAmount st) (Num 500)"
  shows "tasks (handleCreateSubmit env st) = tasks st
       \<and> calls (handleCreateSubmit env st) = calls st
       \<and> createTask (handleCreateSubmit env st) = createTask st
       \<and> createAmount (handleCreateSubmit env st) = createAmount st
       \<and> toasts (handleCreateSubmit env st) =
           toasts st @
             [ToastError
                (if createTask st = [] then ''Enter a task to complete!''
                 else if createAmount st = Num 0 \<or> isNaN (createAmount st)
                   then ''Enter an amount for the new task!''
                 else ''The amount must be more than 500 satoshis!'')]"
  using assms by (auto simp: handleCreateSubmit_def toast_error_def)

theorem createTask_rejects_invalid_input_witness:
  "num_less (createAmount (demo_state\<lparr>createAmount := Num 499\<rparr>)) (Num 500)
   \<and> tasks (handleCreateSubmit (demo_env []) (demo_state\<lparr>createAmount := Num 499\<rparr>))
       = [(0, demo_task ''Old'' ''a0'')]
   \<and> calls (handleCreateSubmit (demo_env []) (demo_state\<lparr>createAmount := Num 499\<rparr>)) = []
   \<and> toasts (handleCreateSubmit (demo_env []) (demo_state\<lparr>createAmount := Num 499\<rparr>))
       = [ToastError ''The amount must be more than 500 satoshis!'']
   \<and> isNaN (createAmount (demo_state\<lparr>createAmount := NaN\<rparr>))
   \<and> calls (handleCreateSubmit (demo_env []) (demo_state\<lparr>createAmount := NaN\<rparr>)) = []
   \<and> toasts (handleCreateSubmit (demo_env []) (demo_state\<lparr>createAmount := NaN\<rparr>))
       = [ToastError ''Enter an amount for the new task!'']"
proof -
  have h1: "num_less (createAmount (demo_state\<lparr>createAmount := Num 499\<rparr>)) (Num 500)"
    by simp
  have h2: "isNaN (createAmount (demo_state\<lparr>createAmount := NaN\<rparr>))"
    by simp
  have d: "tasks demo_state = [(0, demo_task ''Old'' ''a0'')]" "calls demo_state = []"
    "toasts demo_state = []" "createTask demo_state = ''Buy milk''"
    by (simp_all add: demo_state_def initial_state_def)
  from h1 h2 show ?thesis
    using createTask_rejects_invalid_input
            [of "demo_state\<lparr>createAmount := Num 499\<rparr>" "demo_env []"]
          createTask_rejects_invalid_input
            [of "demo_state\<lparr>createAmount := NaN\<rparr>" "demo_env []"]
    by (simp add: d)
qed

text \<open>
  C3. When the input is valid and the three library calls succeed, the task list after
  \<open>handleCreateSubmit\<close> is the new task object followed by the list as it was. The
  new object holds the description, the amount, and a token with the script PushDrop
  returned, the \<open>txid\<close> of the action's result (the empty string when the result has
  none), output index 0 and the other properties of the result.
\<close>

theorem createTask_prepends:
  assumes "createTask st \<noteq> []" and "createAmount st \<noteq> Num 0"
    and "\<not> isNaN (createAmount st)" and "\<not> num_less (createAmount st) (Num 500)"
    and "encrypt env (Buffer_from (createTask st)) ''todo list'' ''1'' = Inr c"
    and "pushdrop_create env [Buffer_from TODO_PROTO_ADDR, c] ''todo list'' ''1'' = Inr s"
    and "createAction env (create_action_args (createTask st) (createAmount st) s) = Inr r"
  shows "tasks (handleCreateSubmit env st) =
           (nextRef st,
            \<lparr> task = createTask st, sats = Some (createAmount st),
              token = Some \<lparr> lockingScript = s,
                             txid = (case res_txid r of None \<Rightarrow> [] | Some t \<Rightarrow> t),
                             outputIndex = Some 0,
                             carried = spread_rest (res_props r) \<rparr>,
              spread = None \<rparr>) # tasks st"
  using assms by (simp add: handleCreateSubmit_def handler_defs new_task_def Let_def)

theorem createTask_prepends_witness:
  "tasks (handleCreateSubmit (demo_env []) demo_state) =
     [(1, \<lparr> task = ''Buy milk'', sats = Some (Num 1000),
            token = Some \<lparr> lockingScript =
                             toHex (Buffer_from TODO_PROTO_ADDR) @ ''.''
                             @ toHex (rev (Buffer_from ''Buy milk'')) @ ''.'',
                           txid = ''tx1'', outputIndex = Some 0,
                           carried = [(''log'', [])] \<rparr>,
            spread = None \<rparr>),
      (0, demo_task ''Old'' ''a0'')]"
proof -
  have d: "createTask demo_state = ''Buy milk''" "createAmount demo_state = Num 1000"
    "tasks demo_state = [(0, demo_task ''Old'' ''a0'')]" "nextRef demo_state = 1"
    by (simp_all add: demo_state_def initial_state_def)
  have h1: "createTask demo_state \<noteq> []" and h2: "createAmount demo_state \<noteq> Num 0"
    and h3: "\<not> isNaN (createAmount demo_state)"
    and h4: "\<not> num_less (createAmount demo_state) (Num 500)"
    by (simp_all add: d)
  have h5: "encrypt (demo_env []) (Buffer_from (createTask demo_state)) ''todo list'' ''1''
              = Inr (rev (Buffer_from ''Buy milk''))"
    by (simp add: d demo_env_def demo_encrypt_def)
  have h6: "pushdrop_create (demo_env [])
              [Buffer_from TODO_PROTO_ADDR, rev (Buffer_from ''Buy milk'')] ''todo list'' ''1''
              = Inr (toHex (Buffer_from TODO_PROTO_ADDR) @ ''.''
                     @ toHex (rev (Buffer_from ''Buy milk'')) @ ''.'')"
    by (simp add: demo_env_def demo_create_def)
  have h7: "createAction (demo_env [])
              (create_action_args (createTask demo_state) (createAmount demo_state)
                 (toHex (Buffer_from TODO_PROTO_ADDR) @ ''.''
                  @ toHex (rev (Buffer_from ''Buy milk'')) @ ''.''))
              = Inr \<lparr> res_txid = Some ''tx1'', res_props = [(''log'', [])] \<rparr>"
    by (simp add: demo_env_def demo_createAction_def)
  show ?thesis
    using createTask_prepends [OF h1 h2 h3 h4 h5 h6 h7] by (simp add: d spread_rest_def)
qed



subsection \<open>Loading the tasks\<close>

text \<open>When the \<open>try\<close> block for one output succeeds, and when it fails.\<close>

lemma decryptTask_Inr_iff:
  "decryptTask env out = Inr t \<longleftrightarrow>
     (\<exists>fs d. pushdrop_decode env (outputScript out) = Inr fs \<and> 2 \<le> length fs
          \<and> decrypt env (Buffer_from_hex (fs ! 1)) ''todo list'' ''1'' = Inr d
          \<and> t = \<lparr> task = d, sats = Some (amount out),
                   token = Some \<lparr> lockingScript = outputScript out, txid = out_txid out,
                                  outputIndex = vout out,
                                  carried = (case envelope out of None \<Rightarrow> []
                                             | Some e \<Rightarrow> spread_rest e) \<rparr>,
                   spread = None \<rparr>)"
  by (auto simp: decryptTask_def split: sum.splits list.splits)

lemma decryptTask_Inl_iff:
  "decryptTask env out = Inl e \<longleftrightarrow>
     pushdrop_decode env (outputScript out) = Inl e
     \<or> (\<exists>fs. pushdrop_decode env (outputScript out) = Inr fs
            \<and> (if length fs < 2 then e = TypeError
                else decrypt env (Buffer_from_hex (fs ! 1)) ''todo list'' ''1'' = Inl e))"
  by (auto simp: decryptTask_def split: sum.splits list.splits)

lemma decryptTask_has_token:
  "decryptTask env out = Inr t \<Longrightarrow>
   \<exists>tok. token t = Some tok \<and> lockingScript tok = outputScript out
        \<and> txid tok = out_txid out \<and> outputIndex tok = vout out"
  by (auto simp: decryptTask_Inr_iff)

lemma loadItem_good:
  assumes "pushdrop_decode env (outputScript out) = Inr fs" and "2 \<le> length fs"
    and "decrypt env (Buffer_from_hex (fs ! 1)) ''todo list'' ''1'' = Inr d"
  shows "task (loadItem env out) = d"
  using assms by (auto simp: loadItem_def decryptTask_def split: sum.splits list.splits)

lemma loadItem_bad:
  "decryptTask env out = Inl e \<Longrightarrow>
   loadItem env out = \<lparr> task = UNABLE_TO_DECRYPT, sats = None, token = None, spread = Some out \<rparr>"
  by (simp add: loadItem_def)

lemma tasks_loadTasks:
  "getTransactionOutputs env ''todo tokens'' True True = Inr outs \<Longrightarrow>
   tasks (loadTasks env st) =
     rev (zip [nextRef st ..< nextRef st + length outs] (map (loadItem env) outs))"
  by (simp add: loadTasks_def called_def)

lemma map_snd_tasks_loadTasks:
  "getTransactionOutputs env ''todo tokens'' True True = Inr outs \<Longrightarrow>
   map snd (tasks (loadTasks env st)) = rev (map (loadItem env) outs)"
  by (simp add: tasks_loadTasks rev_map [symmetric])

lemma loadTasks_success_rest:
  "getTransactionOutputs env ''todo tokens'' True True = Inr outs \<Longrightarrow>
   toasts (loadTasks env st) = toasts st \<and> tasksLoading (loadTasks env st) = False"
  by (simp add: loadTasks_def called_def)

text \<open>
  C4. When the basket query succeeds, the list installed by the loading effect is the
  outputs mapped one by one and reversed, whatever the list held before; every object
  in it is new; and \<open>tasksLoading\<close> is cleared. The example is the basket
  \<open>[T1, T2, T3]\<close>, which gives \<open>[T3, T2, T1]\<close>.
\<close>

theorem listTasks_reverses:
  assumes "getTransactionOutputs env ''todo tokens'' True True = Inr outs"
  shows "map snd (tasks (loadTasks env st)) = rev (map (loadItem env) outs)
       \<and> (\<forall>x \<in> set (tasks (loadTasks env st)). nextRef st \<le> fst x)
       \<and> tasksLoading (loadTasks env st) = False"
proof -
  have "\<forall>x \<in> set (tasks (loadTasks env st)). nextRef st \<le> fst x"
    using assms by (auto simp: tasks_loadTasks dest!: set_zip_leftD)
  moreover have "tasksLoading (loadTasks env st) = False"
    using assms by (simp add: loadTasks_success_rest)
  ultimately show ?thesis
    using assms by (simp add: map_snd_tasks_loadTasks)
qed

theorem listTasks_reverses_witness:
  "map (task \<circ> snd)
     (tasks (loadTasks
        (demo_env [demo_output ''T1'' ''a1'', demo_output ''T2'' ''a2'', demo_output ''T3'' ''a3''])
        demo_state))
   = [''T3'', ''T2'', ''T1'']"
proof -
  let ?outs = "[demo_output ''T1'' ''a1'', demo_output ''T2'' ''a2'', demo_output ''T3'' ''a3'']"
  have q: "getTransactionOutputs (demo_env ?outs) ''todo tokens'' True True = Inr ?outs"
    by (simp add: demo_env_def)
  have items: "map task (map (loadItem (demo_env ?outs)) ?outs) = [''T1'', ''T2'', ''T3'']"
    by code_simp
  have "map (task \<circ> snd) (tasks (loadTasks (demo_env ?outs) demo_state))
          = map task (map snd (tasks (loadTasks (demo_env ?outs) demo_state)))"
    by simp
  also have "\<dots> = map task (rev (map (loadItem (demo_env ?outs)) ?outs))"
    using listTasks_reverses [OF q, of demo_state] by simp
  also have "\<dots> = rev (map task (map (loadItem (demo_env ?outs)) ?outs))"
    by (simp only: rev_map)
  also have "\<dots> = [''T3'', ''T2'', ''T1'']"
    by (simp only: items) simp
  finally show ?thesis .
qed

text \<open>
  C5. Let the basket hold the outputs \<open>pre\<close>, then one output \<open>bad\<close>, then the outputs
  \<open>post\<close>, where every output of \<open>pre\<close> and \<open>post\<close> decodes to at least two fields
  and its field 1 decrypts to \<open>plain out\<close>, while for \<open>bad\<close> the decoding fails, or
  gives fewer than two fields, or the decryption fails. Then the list has one entry per
  output, its descriptions are the plain texts with the fixed text
  \<open>[error] Unable to decrypt task!\<close> in the place of \<open>bad\<close> (in reverse order), no
  error is shown, and \<open>tasksLoading\<close> is cleared.
\<close>

theorem listTasks_degrades_per_item:
  assumes q: "getTransactionOutputs env ''todo tokens'' True True = Inr (pre @ bad # post)"
    and good: "\<forall>out \<in> set pre \<union> set post.
                 \<exists>fs. pushdrop_decode env (outputScript out) = Inr fs \<and> 2 \<le> length fs
                    \<and> decrypt env (Buffer_from_hex (fs ! 1)) ''todo list'' ''1''
                        = Inr (plain out)"
    and bad: "(\<exists>e. pushdrop_decode env (outputScript bad) = Inl e)
              \<or> (\<exists>fs. pushdrop_decode env (outputScript bad) = Inr fs
                     \<and> (length fs < 2
                        \<or> (\<exists>e. decrypt env (Buffer_from_hex (fs ! 1)) ''todo list'' ''1''
                                 = Inl e)))"
  shows "length (tasks (loadTasks env st)) = length pre + length post + 1
       \<and> map (task \<circ> snd) (tasks (loadTasks env st))
           = rev (map plain pre @ UNABLE_TO_DECRYPT # map plain post)
       \<and> toasts (loadTasks env st) = toasts st
       \<and> tasksLoading (loadTasks env st) = False"
proof -
  have g: "task (loadItem env out) = plain out" if "out \<in> set pre \<union> set post" for out
    using good that loadItem_good by blast
  from bad obtain e where "decryptTask env bad = Inl e"
    unfolding decryptTask_Inl_iff by (metis linorder_not_less)
  then have b: "task (loadItem env bad) = UNABLE_TO_DECRYPT"
    by (simp add: loadItem_bad)
  have "map (task \<circ> snd) (tasks (loadTasks env st))
          = map task (rev (map (loadItem env) (pre @ bad # post)))"
    using map_snd_tasks_loadTasks [OF q, of st] by (simp flip: map_map)
  also have "\<dots> = rev (map plain pre @ UNABLE_TO_DECRYPT # map plain post)"
    using g b by (simp add: rev_map)
  finally have descr: "map (task \<circ> snd) (tasks (loadTasks env st))
          = rev (map plain pre @ UNABLE_TO_DECRYPT # map plain post)" .
  have "length (tasks (loadTasks env st)) = length pre + length post + 1"
    using tasks_loadTasks [OF q, of st] by simp
  with descr loadTasks_success_rest [OF q, of st] show ?thesis by simp
qed

theorem listTasks_degrades_per_item_witness:
  "map (task \<circ> snd)
     (tasks (loadTasks (demo_env [demo_output ''T1'' ''a1'', demo_corrupt, demo_output ''T3'' ''a3''])
        initial_state))
   = [''T3'', UNABLE_TO_DECRYPT, ''T1'']"
proof -
  let ?env = "demo_env [demo_output ''T1'' ''a1'', demo_corrupt, demo_output ''T3'' ''a3'']"
  let ?plain = "\<lambda>out. if out = demo_output ''T1'' ''a1'' then ''T1'' else ''T3''"
  have q: "getTransactionOutputs ?env ''todo tokens'' True True
             = Inr ([demo_output ''T1'' ''a1''] @ demo_corrupt # [demo_output ''T3'' ''a3''])"
    by (simp add: demo_env_def)
  have s1: "outputScript (demo_output ''T1'' ''a1'') = ''00.3154.''"
    and s3: "outputScript (demo_output ''T3'' ''a3'') = ''00.3354.''"
    by code_simp+
  have ne: "demo_output ''T3'' ''a3'' \<noteq> demo_output ''T1'' ''a1''"
    by (simp add: demo_output_def)
  have d1: "decrypt ?env (Buffer_from_hex ''3154'') ''todo list'' ''1'' = Inr ''T1''"
    and d3: "decrypt ?env (Buffer_from_hex ''3354'') ''todo list'' ''1'' = Inr ''T3''"
    unfolding demo_env_def by (simp, code_simp)+
  have good: "\<forall>out \<in> set [demo_output ''T1'' ''a1''] \<union> set [demo_output ''T3'' ''a3''].
                 \<exists>fs. pushdrop_decode ?env (outputScript out) = Inr fs \<and> 2 \<le> length fs
                    \<and> decrypt ?env (Buffer_from_hex (fs ! 1)) ''todo list'' ''1''
                        = Inr (?plain out)"
    using d1 d3 ne by (simp add: s1 s3 demo_env_def demo_decode_def)
  have bad: "(\<exists>e. pushdrop_decode ?env (outputScript demo_corrupt) = Inl e)
              \<or> (\<exists>fs. pushdrop_decode ?env (outputScript demo_corrupt) = Inr fs
                     \<and> (length fs < 2
                        \<or> (\<exists>e. decrypt ?env (Buffer_from_hex (fs ! 1)) ''todo list'' ''1''
                                 = Inl e)))"
    by (simp add: demo_env_def demo_decode_def demo_corrupt_def demo_decrypt_def)
  show ?thesis
    using listTasks_degrades_per_item [OF q good bad, of initial_state] ne by simp
qed

text \<open>
  C9. When the basket query fails with the code \<open>ERR_NO_METANET_IDENTITY\<close>, the
  loading effect shows nothing; when it fails with another code or none, it shows
  \<open>Failed to load ToDo tasks!\<close> with the error's message; in both cases the task list
  stays as it was. Whatever the query does, \<open>tasksLoading\<close> is false afterwards.
\<close>

theorem listTasks_query_failure:
  "(getTransactionOutputs env ''todo tokens'' True True = Inl e
      \<and> code e = Some ''ERR_NO_METANET_IDENTITY''
      \<longrightarrow> toasts (loadTasks env st) = toasts st \<and> tasks (loadTasks env st) = tasks st)
   \<and> (getTransactionOutputs env ''todo tokens'' True True = Inl e
      \<and> code e \<noteq> Some ''ERR_NO_METANET_IDENTITY''
      \<longrightarrow> toasts (loadTasks env st)
            = toasts st @ [ToastError (''Failed to load ToDo tasks! Error: '' @ message e)]
          \<and> tasks (loadTasks env st) = tasks st)
   \<and> tasksLoading (loadTasks env st) = False"
  by (auto simp: loadTasks_def handler_defs Let_def split: sum.splits)

theorem listTasks_query_failure_witness:
  "toasts (loadTasks (failing_query no_identity) initial_state) = []
   \<and> tasksLoading (loadTasks (failing_query no_identity) initial_state) = False
   \<and> toasts (loadTasks (failing_query (JsError None ''Permission denied'')) initial_state)
       = [ToastError ''Failed to load ToDo tasks! Error: Permission denied'']
   \<and> tasksLoading (loadTasks (failing_query (JsError None ''Permission denied'')) initial_state)
       = False
   \<and> tasksLoading (loadTasks (demo_env []) initial_state) = False"
proof -
  have i: "toasts initial_state = []"
    by (simp add: initial_state_def)
  have q1: "getTransactionOutputs (failing_query no_identity) ''todo tokens'' True True
              = Inl no_identity \<and> code no_identity = Some ''ERR_NO_METANET_IDENTITY''"
    by (simp add: failing_query_def no_identity_def)
  have q2: "getTransactionOutputs (failing_query (JsError None ''Permission denied''))
              ''todo tokens'' True True = Inl (JsError None ''Permission denied'')
            \<and> code (JsError None ''Permission denied'') \<noteq> Some ''ERR_NO_METANET_IDENTITY''"
    by (simp add: failing_query_def)
  show ?thesis
    using q1 q2
      listTasks_query_failure [of "failing_query no_identity" no_identity initial_state]
      listTasks_query_failure [of "failing_query (JsError None ''Permission denied'')"
                                  "JsError None ''Permission denied''" initial_state]
      listTasks_query_failure [of "demo_env []" no_identity initial_state]
    by (simp add: i)
qed

subsection \<open>Completing a task\<close>

text \<open>Removing the selected object from a list without repeated objects.\<close>

lemma remove_task_Nil: "remove_task sel [] = []"
  by (simp add: remove_task_def)

lemma remove_task_Cons:
  "remove_task sel (x # xs) = (if fst x = fst sel then xs else x # remove_task sel xs)"
  by (simp add: remove_task_def splice1_def split: option.splits)

lemma remove_task_filter:
  "distinct (map fst xs) \<Longrightarrow> remove_task sel xs = filter (\<lambda>x. fst x \<noteq> fst sel) xs"
proof (induction xs)
  case Nil
  show ?case by (simp add: remove_task_Nil)
next
  case (Cons x xs)
  show ?case
  proof (cases "fst x = fst sel")
    case True
    with Cons.prems have "\<forall>y \<in> set xs. fst y \<noteq> fst sel"
      by (auto simp: image_iff)
    then have "filter (\<lambda>y. fst y \<noteq> fst sel) xs = xs"
      by (simp add: filter_id_conv)
    with True show ?thesis by (simp add: remove_task_Cons)
  next
    case False
    with Cons show ?thesis by (simp add: remove_task_Cons)
  qed
qed

lemma remove_task_split:
  assumes "distinct (map fst xs)" and "(r, t) \<in> set xs"
  shows "\<exists>pre post. xs = pre @ (r, t) # post \<and> remove_task (r, t) xs = pre @ post
           \<and> r \<notin> fst ` set (pre @ post)"
proof -
  from assms(2) obtain pre post where xs: "xs = pre @ (r, t) # post"
    by (auto simp: in_set_conv_decomp)
  with assms(1) have fresh: "r \<notin> fst ` set pre" "r \<notin> fst ` set post"
    by auto
  then have "filter (\<lambda>x. fst x \<noteq> r) pre = pre" "filter (\<lambda>x. fst x \<noteq> r) post = post"
    by (auto simp: filter_id_conv image_iff)
  with xs assms(1) have "remove_task (r, t) xs = pre @ post"
    by (simp add: remove_task_filter)
  with xs fresh show ?thesis by auto
qed

text \<open>The state after a completion in which nothing failed.\<close>

lemma complete_success:
  assumes sel: "selectedTask st = Some (r, t)"
    and tok: "token t = Some tok" "txid tok \<noteq> []" "outputIndex tok = Some i"
    and rd: "pushdrop_redeem env
               \<lparr> rd_protocolID = ''todo list'', rd_keyID = ''1'', prevTxId = Some (txid tok),
                 rd_outputIndex = Some i, rd_lockingScript = Some (lockingScript tok),
                 outputAmount = sats t \<rparr> = Inr u"
    and act: "createAction env
                (complete_action_args (completion_description (Some (r, t))) tok i u) = Inr res"
  shows "handleCompleteSubmit env st =
           st\<lparr> calls := calls st @ [CallPushdropRedeem, CallCreateAction],
                toasts := toasts st @ [ToastCompleted],
                tasks := remove_task (r, t) (tasks st),
                selectedTask := None, completeOpen := False, completeLoading := False \<rparr>"
  using assms by (simp add: handleCompleteSubmit_def redeem_args_of_def handler_defs Let_def)

text \<open>
  C8. Let the selected task object be in the list, with a complete token, in a list
  without repeated objects, and let \<open>pushdrop.redeem\<close> and \<open>createAction\<close> succeed.
  Then the list after \<open>handleCompleteSubmit\<close> is the old list without that one
  object: the elements before it and after it, unchanged and in order. The removed
  reference does not occur any more, every element with another reference stays (also
  one with equal contents), and the length has gone down by one.
\<close>

theorem completeTask_removes_by_identity:
  assumes inv: "distinct (map fst (tasks st))"
    and sel: "selectedTask st = Some (r, t)" and present: "(r, t) \<in> set (tasks st)"
    and tok: "token t = Some tok" "txid tok \<noteq> []" "outputIndex tok = Some i"
    and rd: "pushdrop_redeem env
               \<lparr> rd_protocolID = ''todo list'', rd_keyID = ''1'', prevTxId = Some (txid tok),
                 rd_outputIndex = Some i, rd_lockingScript = Some (lockingScript tok),
                 outputAmount = sats t \<rparr> = Inr u"
    and act: "createAction env
                (complete_action_args (completion_description (Some (r, t))) tok i u) = Inr res"
  shows "(\<exists>pre post. tasks st = pre @ (r, t) # post
            \<and> tasks (handleCompleteSubmit env st) = pre @ post
            \<and> r \<notin> fst ` set (pre @ post))
       \<and> tasks (handleCompleteSubmit env st) = filter (\<lambda>x. fst x \<noteq> r) (tasks st)
       \<and> length (tasks (handleCompleteSubmit env st)) + 1 = length (tasks st)"
proof -
  have eq: "tasks (handleCompleteSubmit env st) = remove_task (r, t) (tasks st)"
    by (simp add: complete_success [OF sel tok rd act])
  from remove_task_split [OF inv present] obtain pre post
    where s: "tasks st = pre @ (r, t) # post" "remove_task (r, t) (tasks st) = pre @ post"
      "r \<notin> fst ` set (pre @ post)"
    by blast
  have f: "remove_task (r, t) (tasks st) = filter (\<lambda>x. fst x \<noteq> r) (tasks st)"
    using remove_task_filter [OF inv, of "(r, t)"] by simp
  have c1: "\<exists>pre post. tasks st = pre @ (r, t) # post
              \<and> tasks (handleCompleteSubmit env st) = pre @ post
              \<and> r \<notin> fst ` set (pre @ post)"
    using s unfolding eq by blast
  have c2: "tasks (handleCompleteSubmit env st) = filter (\<lambda>x. fst x \<noteq> r) (tasks st)"
    unfolding eq by (rule f)
  have c3: "length (tasks (handleCompleteSubmit env st)) + 1 = length (tasks st)"
    unfolding eq s(2) by (simp add: s(1))
  from c1 c2 c3 show ?thesis by (intro conjI)
qed

theorem completeTask_removes_by_identity_witness:
  "tasks (handleCompleteSubmit (demo_env []) twins_state)
     = [(0, demo_task ''Same'' ''a0''), (2, demo_task ''Other'' ''a2'')]"
proof -
  let ?t = "demo_task ''Same'' ''a0''"
  let ?tok = "\<lparr> lockingScript = ''00.00.'', txid = ''a0'', outputIndex = Some 0, carried = [] \<rparr>"
  have d: "tasks twins_state = [(0, ?t), (1, ?t), (2, demo_task ''Other'' ''a2'')]"
    by (simp add: twins_state_def initial_state_def)
  have inv: "distinct (map fst (tasks twins_state))"
    by (simp add: d)
  have sel: "selectedTask twins_state = Some (1, ?t)"
    by (simp add: twins_state_def initial_state_def)
  have present: "(1, ?t) \<in> set (tasks twins_state)"
    by (simp add: d)
  have tok: "token ?t = Some ?tok" "txid ?tok \<noteq> []" "outputIndex ?tok = Some 0"
    by (simp_all add: demo_task_def)
  have rd: "pushdrop_redeem (demo_env [])
               \<lparr> rd_protocolID = ''todo list'', rd_keyID = ''1'', prevTxId = Some (txid ?tok),
                 rd_outputIndex = Some 0, rd_lockingScript = Some (lockingScript ?tok),
                 outputAmount = sats ?t \<rparr> = Inr ''unlock 00.00.''"
    by (simp add: demo_env_def demo_redeem_def)
  have act: "createAction (demo_env [])
                (complete_action_args (completion_description (Some (1, ?t))) ?tok 0
                   ''unlock 00.00.'')
              = Inr \<lparr> res_txid = Some ''tx1'', res_props = [(''log'', [])] \<rparr>"
    by (simp add: demo_env_def demo_createAction_def)
  show ?thesis
    using completeTask_removes_by_identity [OF inv sel present tok rd act] by (simp add: d)
qed

text \<open>The state after a completion stopped by the checks, or by PushDrop before them.\<close>

lemma complete_rejects:
  assumes "selectedTask st = None
           \<or> (\<exists>r t tok. selectedTask st = Some (r, t) \<and> token t = Some tok
                  \<and> (txid tok = [] \<or> outputIndex tok = None))"
  shows "\<exists>args. redeem_args_of (selectedTask st) = Inr args
           \<and> handleCompleteSubmit env st =
               st\<lparr> calls := calls st @ [CallPushdropRedeem],
                    toasts := toasts st @
                      [ToastError (''Error completing task: '' @
                         (case pushdrop_redeem env args of
                            Inl e \<Rightarrow> message e
                          | Inr u \<Rightarrow>
                              if selectedTask st = None then ''No task selected.''
                              else ''Task data is incomplete or undefined.''))],
                    completeLoading := False \<rparr>"
  using assms
  by (auto simp: handleCompleteSubmit_def redeem_args_of_def handler_defs Let_def
           split: sum.splits option.splits)

text \<open>Completing an object without a token stops before any library is called.\<close>

lemma complete_placeholder:
  assumes "selectedTask st = Some (r, t)" and "token t = None"
  shows "handleCompleteSubmit env st =
           st\<lparr> toasts := toasts st @ [ToastError (''Error completing task: '' @ message TypeError)],
                completeLoading := False \<rparr>"
  using assms by (simp add: handleCompleteSubmit_def redeem_args_of_def handler_defs)

text \<open>
  C7, as the code has it. When no task is selected, or the selected task's token has an
  empty \<open>txid\<close> or no output index, \<open>handleCompleteSubmit\<close> calls
  \<open>pushdrop.redeem\<close> and nothing else (no action is submitted), leaves the task list
  as it was, and shows one error. The error is the one \<open>pushdrop.redeem\<close> threw if it
  threw; otherwise it is \<open>No task selected.\<close> for no selection and
  \<open>Task data is incomplete or undefined.\<close> for an incomplete token.
\<close>

theorem completeTask_incomplete_data:
  assumes "selectedTask st = None
           \<or> (\<exists>r t tok. selectedTask st = Some (r, t) \<and> token t = Some tok
                  \<and> (txid tok = [] \<or> outputIndex tok = None))"
  shows "tasks (handleCompleteSubmit env st) = tasks st
       \<and> calls (handleCompleteSubmit env st) = calls st @ [CallPushdropRedeem]
       \<and> (\<exists>args. redeem_args_of (selectedTask st) = Inr args
              \<and> toasts (handleCompleteSubmit env st) =
                  toasts st @
                    [ToastError (''Error completing task: '' @
                       (case pushdrop_redeem env args of
                          Inl e \<Rightarrow> message e
                        | Inr u \<Rightarrow>
                            if selectedTask st = None then ''No task selected.''
                            else ''Task data is incomplete or undefined.''))])"
proof -
  from complete_rejects [OF assms, of env] obtain args
    where a: "redeem_args_of (selectedTask st) = Inr args"
      and eq: "handleCompleteSubmit env st =
               st\<lparr> calls := calls st @ [CallPushdropRedeem],
                    toasts := toasts st @
                      [ToastError (''Error completing task: '' @
                         (case pushdrop_redeem env args of
                            Inl e \<Rightarrow> message e
                          | Inr u \<Rightarrow>
                              if selectedTask st = None then ''No task selected.''
                              else ''Task data is incomplete or undefined.''))],
                    completeLoading := False \<rparr>"
    by blast
  show ?thesis
    unfolding eq using a by simp
qed

theorem completeTask_incomplete_data_witness:
  "tasks (handleCompleteSubmit (demo_env []) empty_txid_state) = [(0, demo_task ''Buy milk'' [])]
   \<and> calls (handleCompleteSubmit (demo_env []) empty_txid_state) = [CallPushdropRedeem]
   \<and> toasts (handleCompleteSubmit (demo_env []) empty_txid_state)
       = [ToastError ''Error completing task: Task data is incomplete or undefined.'']
   \<and> toasts (handleCompleteSubmit (demo_env []) initial_state)
       = [ToastError ''Error completing task: Missing locking script'']"
proof -
  let ?tok = "\<lparr> lockingScript = ''00.00.'', txid = [], outputIndex = Some 0, carried = [] \<rparr>"
  have d: "selectedTask empty_txid_state = Some (0, demo_task ''Buy milk'' [])"
    "tasks empty_txid_state = [(0, demo_task ''Buy milk'' [])]"
    "calls empty_txid_state = []" "toasts empty_txid_state = []"
    "selectedTask initial_state = None" "toasts initial_state = []"
    by (simp_all add: empty_txid_state_def initial_state_def)
  have t: "token (demo_task ''Buy milk'' []) = Some ?tok"
    by (simp add: demo_task_def)
  have h1: "selectedTask empty_txid_state = None
           \<or> (\<exists>r t tok. selectedTask empty_txid_state = Some (r, t) \<and> token t = Some tok
                  \<and> (txid tok = [] \<or> outputIndex tok = None))"
    by (simp add: d t)
  have h2: "selectedTask initial_state = None
           \<or> (\<exists>r t tok. selectedTask initial_state = Some (r, t) \<and> token t = Some tok
                  \<and> (txid tok = [] \<or> outputIndex tok = None))"
    by (simp add: d)
  show ?thesis
    using completeTask_incomplete_data [OF h1, of "demo_env []"]
      completeTask_incomplete_data [OF h2, of "demo_env []"]
    by (auto simp: d t redeem_args_of_def demo_env_def demo_redeem_def demo_task_def)
qed

text \<open>
  C7 as claimed says that the rejection is always the one for incomplete task data.
  The check comes after the call of \<open>pushdrop.redeem\<close>: with a library that refuses
  an empty \<open>prevTxId\<close>, a task with an empty \<open>txid\<close> is rejected with the
  library's error, and the error for incomplete task data is never shown.
\<close>

theorem completeTask_incomplete_data_counterexample:
  "selectedTask empty_txid_state = Some (0, demo_task ''Buy milk'' [])
   \<and> map_option txid (token (demo_task ''Buy milk'' [])) = Some []
   \<and> toasts (handleCompleteSubmit strict_env empty_txid_state)
       = [ToastError ''Error completing task: Invalid previous transaction'']
   \<and> ToastError ''Error completing task: Task data is incomplete or undefined.''
       \<notin> set (toasts (handleCompleteSubmit strict_env empty_txid_state))"
  by (simp add: empty_txid_state_def initial_state_def demo_task_def strict_env_def
      handleCompleteSubmit_def redeem_args_of_def handler_defs)

text \<open>
  C10, as the code has it. When the input is valid, the three library calls succeed and
  the action's result has no \<open>txid\<close>, \<open>handleCreateSubmit\<close> still puts the new task
  in front of the list, with the empty string as the token's \<open>txid\<close> and output index
  0. Completing that task later, in any state where it is the selected one and with any
  libraries, submits no action and leaves the list as it was: \<open>pushdrop.redeem\<close> is
  the only call, and the error shown is \<open>Task data is incomplete or undefined.\<close> when
  \<open>pushdrop.redeem\<close> returned, and the error of \<open>pushdrop.redeem\<close> when it threw.
\<close>

theorem createTask_without_txid:
  assumes valid: "createTask st \<noteq> []" "createAmount st \<noteq> Num 0"
      "\<not> isNaN (createAmount st)" "\<not> num_less (createAmount st) (Num 500)"
    and enc: "encrypt env (Buffer_from (createTask st)) ''todo list'' ''1'' = Inr c"
    and scr: "pushdrop_create env [Buffer_from TODO_PROTO_ADDR, c] ''todo list'' ''1'' = Inr s"
    and act: "createAction env (create_action_args (createTask st) (createAmount st) s) = Inr r"
    and no_txid: "res_txid r = None"
    and sel: "selectedTask st2 = Some (hd (tasks (handleCreateSubmit env st)))"
  shows "(\<exists>t tok. tasks (handleCreateSubmit env st) = (nextRef st, t) # tasks st
            \<and> token t = Some tok \<and> txid tok = [] \<and> outputIndex tok = Some 0)
       \<and> tasks (handleCompleteSubmit env2 st2) = tasks st2
       \<and> calls (handleCompleteSubmit env2 st2) = calls st2 @ [CallPushdropRedeem]
       \<and> (\<exists>args. redeem_args_of (selectedTask st2) = Inr args
              \<and> toasts (handleCompleteSubmit env2 st2) =
                  toasts st2 @
                    [ToastError (''Error completing task: '' @
                       (case pushdrop_redeem env2 args of
                          Inl e \<Rightarrow> message e
                        | Inr u \<Rightarrow> ''Task data is incomplete or undefined.''))])"
proof -
  let ?t = "new_task (createTask st) (createAmount st) s r"
  let ?tok = "\<lparr> lockingScript = s, txid = [], outputIndex = Some 0,
                carried = spread_rest (res_props r) \<rparr>"
  have ts: "tasks (handleCreateSubmit env st) = (nextRef st, ?t) # tasks st"
    by (simp add: create_success [OF valid enc scr act])
  have t: "token ?t = Some ?tok"
    using no_txid by (simp add: new_task_def)
  have c1: "\<exists>t tok. tasks (handleCreateSubmit env st) = (nextRef st, t) # tasks st
            \<and> token t = Some tok \<and> txid tok = [] \<and> outputIndex tok = Some 0"
    using ts t by simp
  have sel': "selectedTask st2 = Some (nextRef st, ?t)"
    using sel ts by simp
  then have pre: "selectedTask st2 = None
           \<or> (\<exists>r t tok. selectedTask st2 = Some (r, t) \<and> token t = Some tok
                  \<and> (txid tok = [] \<or> outputIndex tok = None))"
    using t by simp
  from complete_rejects [OF pre, of env2] obtain args
    where a: "redeem_args_of (selectedTask st2) = Inr args"
      and eq: "handleCompleteSubmit env2 st2 =
               st2\<lparr> calls := calls st2 @ [CallPushdropRedeem],
                    toasts := toasts st2 @
                      [ToastError (''Error completing task: '' @
                         (case pushdrop_redeem env2 args of
                            Inl e \<Rightarrow> message e
                          | Inr u \<Rightarrow>
                              if selectedTask st2 = None then ''No task selected.''
                              else ''Task data is incomplete or undefined.''))],
                    completeLoading := False \<rparr>"
    by blast
  have c2: "tasks (handleCompleteSubmit env2 st2) = tasks st2"
    and c3: "calls (handleCompleteSubmit env2 st2) = calls st2 @ [CallPushdropRedeem]"
    unfolding eq by simp_all
  have c4: "\<exists>args. redeem_args_of (selectedTask st2) = Inr args
              \<and> toasts (handleCompleteSubmit env2 st2) =
                  toasts st2 @
                    [ToastError (''Error completing task: '' @
                       (case pushdrop_redeem env2 args of
                          Inl e \<Rightarrow> message e
                        | Inr u \<Rightarrow> ''Task data is incomplete or undefined.''))]"
    unfolding eq using a sel' by (auto split: sum.splits)
  from c1 c2 c3 c4 show ?thesis by (intro conjI)
qed

theorem createTask_without_txid_witness:
  "map (map_option txid \<circ> token \<circ> snd) (tasks (handleCreateSubmit env_no_txid demo_state))
     = [Some [], Some ''a0'']
   \<and> toasts (handleCompleteSubmit (demo_env [])
        ((handleCreateSubmit env_no_txid demo_state)
           \<lparr>selectedTask := Some (hd (tasks (handleCreateSubmit env_no_txid demo_state)))\<rparr>))
       = [ToastCreated, ToastError ''Error completing task: Task data is incomplete or undefined.'']"
proof -
  let ?c = "rev (Buffer_from ''Buy milk'')"
  let ?s = "toHex (Buffer_from TODO_PROTO_ADDR) @ ''.'' @ toHex ?c @ ''.''"
  let ?r = "\<lparr> res_txid = None, res_props = [] \<rparr>"
  let ?st2 = "(handleCreateSubmit env_no_txid demo_state)
                \<lparr>selectedTask := Some (hd (tasks (handleCreateSubmit env_no_txid demo_state)))\<rparr>"
  have d: "createTask demo_state = ''Buy milk''" "createAmount demo_state = Num 1000"
    "tasks demo_state = [(0, demo_task ''Old'' ''a0'')]" "nextRef demo_state = 1"
    "toasts demo_state = []"
    by (simp_all add: demo_state_def initial_state_def)
  have h1: "createTask demo_state \<noteq> []" and h2: "createAmount demo_state \<noteq> Num 0"
    and h3: "\<not> isNaN (createAmount demo_state)"
    and h4: "\<not> num_less (createAmount demo_state) (Num 500)"
    by (simp_all add: d)
  have h5: "encrypt env_no_txid (Buffer_from (createTask demo_state)) ''todo list'' ''1''
              = Inr ?c"
    by (simp add: d env_no_txid_def demo_env_def demo_encrypt_def)
  have h6: "pushdrop_create env_no_txid [Buffer_from TODO_PROTO_ADDR, ?c] ''todo list'' ''1''
              = Inr ?s"
    by (simp add: env_no_txid_def demo_env_def demo_create_def)
  have h7: "createAction env_no_txid
              (create_action_args (createTask demo_state) (createAmount demo_state) ?s)
              = Inr ?r"
    by (simp add: env_no_txid_def)
  have h8: "res_txid ?r = None"
    by simp
  have h9: "selectedTask ?st2 = Some (hd (tasks (handleCreateSubmit env_no_txid demo_state)))"
    by simp
  have ts: "toasts (handleCreateSubmit env_no_txid demo_state) = [ToastCreated]"
    by (simp add: create_success [OF h1 h2 h3 h4 h5 h6 h7] d)
  from createTask_without_txid [OF h1 h2 h3 h4 h5 h6 h7 h8 h9, of "demo_env []"]
  show ?thesis
    by (auto simp: d ts demo_task_def redeem_args_of_def demo_env_def demo_redeem_def)
qed

text \<open>
  C10 as claimed says that the check \<open>txid === ''\<close> is what rejects such a task. The
  check comes after the call of \<open>pushdrop.redeem\<close>: the task created without a
  \<open>txid\<close>, completed with a library that refuses an empty \<open>prevTxId\<close>, is rejected
  with the library's error, and the error of the check is never shown.
\<close>

theorem createTask_without_txid_counterexample:
  "map_option txid (token (snd (hd (tasks (handleCreateSubmit env_no_txid demo_state)))))
     = Some []
   \<and> toasts (handleCompleteSubmit strict_env
        ((handleCreateSubmit env_no_txid demo_state)
           \<lparr>selectedTask := Some (hd (tasks (handleCreateSubmit env_no_txid demo_state)))\<rparr>))
       = [ToastCreated, ToastError ''Error completing task: Invalid previous transaction'']
   \<and> ToastError ''Error completing task: Task data is incomplete or undefined.''
       \<notin> set (toasts (handleCompleteSubmit strict_env
        ((handleCreateSubmit env_no_txid demo_state)
           \<lparr>selectedTask := Some (hd (tasks (handleCreateSubmit env_no_txid demo_state)))\<rparr>)))"
proof -
  let ?c = "rev (Buffer_from ''Buy milk'')"
  let ?s = "toHex (Buffer_from TODO_PROTO_ADDR) @ ''.'' @ toHex ?c @ ''.''"
  let ?r = "\<lparr> res_txid = None, res_props = [] \<rparr>"
  have d: "createTask demo_state = ''Buy milk''" "createAmount demo_state = Num 1000"
    "toasts demo_state = []"
    by (simp_all add: demo_state_def initial_state_def)
  have h1: "createTask demo_state \<noteq> []" and h2: "createAmount demo_state \<noteq> Num 0"
    and h3: "\<not> isNaN (createAmount demo_state)"
    and h4: "\<not> num_less (createAmount demo_state) (Num 500)"
    by (simp_all add: d)
  have h5: "encrypt env_no_txid (Buffer_from (createTask demo_state)) ''todo list'' ''1''
              = Inr ?c"
    by (simp add: d env_no_txid_def demo_env_def demo_encrypt_def)
  have h6: "pushdrop_create env_no_txid [Buffer_from TODO_PROTO_ADDR, ?c] ''todo list'' ''1''
              = Inr ?s"
    by (simp add: env_no_txid_def demo_env_def demo_create_def)
  have h7: "createAction env_no_txid
              (create_action_args (createTask demo_state) (createAmount demo_state) ?s)
              = Inr ?r"
    by (simp add: env_no_txid_def)
  show ?thesis
    unfolding create_success [OF h1 h2 h3 h4 h5 h6 h7]
    by (simp add: d new_task_def handleCompleteSubmit_def redeem_args_of_def handler_defs
        strict_env_def)
qed

text \<open>
  C6. The invariant that every task in the list has a token fails on the failure path of
  the loading effect. The object built in the \<open>catch\<close> is the basket output with a
  \<open>task\<close> property added: it has neither \<open>token\<close> nor \<open>sats\<close>. Run on a basket
  with one output that cannot be decrypted, the effect installs a list whose only
  entry has no token. The \<open>try\<close> block of the same function does build the token
  (\<open>decryptTask_has_token\<close>), and \<open>handleCompleteSubmit\<close> on such an entry ends in
  a \<open>TypeError\<close> (\<open>complete_placeholder\<close>).
\<close>

theorem listTasks_placeholder_without_token:
  "map (token \<circ> snd) (tasks (loadTasks (demo_env [demo_corrupt]) initial_state)) = [None]"
  by (simp add: loadTasks_def called_def demo_env_def loadItem_def decryptTask_def
      demo_decode_def demo_corrupt_def demo_decrypt_def initial_state_def)

subsection \<open>The references stay distinct\<close>

text \<open>
  The invariant holds initially and every handler keeps it, so the list never holds the
  same object twice.
\<close>

lemma refs_fresh_initial: "refs_fresh initial_state"
  by (simp add: refs_fresh_def initial_state_def)

lemma refs_fresh_create: "refs_fresh st \<Longrightarrow> refs_fresh (handleCreateSubmit env st)"
  by (auto simp: refs_fresh_def handleCreateSubmit_def handler_defs Let_def list_all_iff
           split: sum.splits)

lemma refs_fresh_remove:
  assumes "distinct (map fst xs)" and "list_all (\<lambda>x. fst x < n) xs"
  shows "distinct (map fst (remove_task sel xs)) \<and> list_all (\<lambda>x. fst x < n) (remove_task sel xs)"
  using assms by (simp add: remove_task_filter distinct_map_filter list_all_iff)

lemma refs_fresh_complete: "refs_fresh st \<Longrightarrow> refs_fresh (handleCompleteSubmit env st)"
  using refs_fresh_remove
  by (auto simp: refs_fresh_def handleCompleteSubmit_def handler_defs Let_def
           split: sum.splits option.splits)

lemma loaded_refs:
  "map fst (rev (zip [n ..< n + length xs] (map f xs))) = rev [n ..< n + length xs]"
  by (simp add: rev_map [symmetric])

lemma refs_fresh_load: "refs_fresh st \<Longrightarrow> refs_fresh (loadTasks env st)"
  by (auto simp: refs_fresh_def loadTasks_def handler_defs Let_def list_all_iff loaded_refs
           dest!: set_zip_leftD split: sum.splits)

lemma refs_fresh_open: "refs_fresh st \<Longrightarrow> refs_fresh (openCompleteModal x st)"
  by (simp add: refs_fresh_def openCompleteModal_def)

end
